theory Spec2Isabelle
  imports Complex_Main "HOL-Library.Char_ord" "HOL-Library.List_Lexorder" "HOL-Library.Sublist"
begin

section \<open>Chapter performance API: validation, bulk write, cache keys, rate limits\<close>

text \<open>
  The development follows the JavaScript sources: the validator
  (\<^verbatim>\<open>validators/chapterValidator.js\<close>), the controller (\<^verbatim>\<open>createChapters\<close>,
  \<^verbatim>\<open>getStatistics\<close>), the cache middleware (\<^verbatim>\<open>generateCacheKey\<close>,
  \<^verbatim>\<open>cacheMiddleware\<close>, \<^verbatim>\<open>clearChapterCache\<close>) and the two rate limiters.
  Third-party code (Joi, Mongoose, Redis, express-rate-limit) is not part of the
  repository: its results enter the model as parameters or as small models that are
  marked as such.
\<close>

subsection \<open>JavaScript helpers\<close>

text \<open>Decimal rendering of a non-negative integer, as a template literal prints it.\<close>

function show_nat :: "nat \<Rightarrow> string" where
  "show_nat n = (if n < 10 then [char_of (48 + n)] else show_nat (n div 10) @ [char_of (48 + n mod 10)])"
  by pat_completeness auto
termination
  by (relation "measure (\<lambda>n. n)") auto

declare show_nat.simps [simp del]

text \<open>\<^verbatim>\<open>Array.prototype.join\<close> on strings.\<close>

fun join :: "string \<Rightarrow> string list \<Rightarrow> string" where
  "join sep [] = []"
| "join sep [x] = x"
| "join sep (x # y # ys) = x @ sep @ join sep (y # ys)"

text \<open>
  A string-valued property that may be \<^verbatim>\<open>undefined\<close>; \<^verbatim>\<open>a || b\<close> takes \<open>b\<close> when
  \<open>a\<close> is falsy, and the empty string is falsy as well.
\<close>

definition truthy_str :: "string option \<Rightarrow> bool" where
  "truthy_str v = (case v of None \<Rightarrow> False | Some s \<Rightarrow> s \<noteq> [])"

definition js_or :: "string option \<Rightarrow> string option \<Rightarrow> string option" where
  "js_or a b = (if truthy_str a then a else b)"

text \<open>
  A plain JavaScript object with string keys, as the list of its own properties in
  enumeration order (\<^verbatim>\<open>Object.keys\<close>): array-index keys first, ascending by number, then
  the other keys in the order of their creation. \<open>js_put\<close> is the assignment
  \<^verbatim>\<open>obj[key] = v\<close>.
\<close>

type_synonym 'v js_object = "(string \<times> 'v) list"

definition is_digit :: "char \<Rightarrow> bool" where
  "is_digit c = ((48::nat) \<le> of_char c \<and> (of_char c :: nat) \<le> 57)"

definition digits_value :: "string \<Rightarrow> nat" where
  "digits_value s = foldl (\<lambda>acc c. 10 * acc + (of_char c - 48)) 0 s"

definition is_array_index :: "string \<Rightarrow> bool" where
  "is_array_index k =
     (k \<noteq> [] \<and> list_all is_digit k \<and> (k = ''0'' \<or> hd k \<noteq> CHR ''0'')
      \<and> length k \<le> 10 \<and> digits_value k < 4294967295)"

fun js_insert_index :: "string \<Rightarrow> 'v \<Rightarrow> 'v js_object \<Rightarrow> 'v js_object" where
  "js_insert_index k v [] = [(k, v)]"
| "js_insert_index k v ((k', v') # rest) =
     (if is_array_index k' \<and> digits_value k' < digits_value k
      then (k', v') # js_insert_index k v rest
      else (k, v) # (k', v') # rest)"

definition Object_keys :: "'v js_object \<Rightarrow> string list" where
  "Object_keys obj = map fst obj"

definition js_get :: "'v js_object \<Rightarrow> string \<Rightarrow> 'v option" where
  "js_get obj k = map_of obj k"

text \<open>
  The values stored here are strings and numbers. Assigning such a value to the key
  \<^verbatim>\<open>__proto__\<close> of a plain object runs the setter of \<^verbatim>\<open>Object.prototype\<close>, which
  ignores a value that is neither an object nor \<^verbatim>\<open>null\<close>: the object is unchanged.
\<close>

definition js_put :: "'v js_object \<Rightarrow> string \<Rightarrow> 'v \<Rightarrow> 'v js_object" where
  "js_put obj k v =
     (if k = ''__proto__'' then obj
      else if k \<in> set (Object_keys obj) then map (\<lambda>(k', v'). if k' = k then (k', v) else (k', v')) obj
      else if is_array_index k then js_insert_index k v obj
      else obj @ [(k, v)])"

subsection \<open>Records of the domain\<close>

record year_counts =
  y2019 :: int
  y2020 :: int
  y2021 :: int
  y2022 :: int
  y2023 :: int
  y2024 :: int
  y2025 :: int

text \<open>
  A validated chapter (the value Joi returns). The source's field names \<^verbatim>\<open>chapter\<close>,
  \<^verbatim>\<open>class\<close> and \<^verbatim>\<open>unit\<close> carry a suffix here.
\<close>

record chapter_rec =
  subject :: string
  chapter_name :: string
  class_name :: string
  unit_name :: string
  yearWiseQuestionCount :: year_counts
  questionSolved :: int
  status :: string
  isWeakChapter :: bool

text \<open>A stored document: the chapter with the identifier the store assigned.\<close>

record chapter_doc = chapter_rec +
  doc_id :: string

subsection \<open>The validator: \<^verbatim>\<open>validateChaptersArray\<close>\<close>

text \<open>
  The request body (or the parsed upload) is any JSON value: the middleware only asks
  whether it is an array. \<open>'j\<close> is the type of raw JSON items.
\<close>

datatype 'j payload = NotArray | IsArray "'j list"

datatype 'j upload = BadJson string | GoodJson "'j payload"

record 'j upload_request =
  req_file :: "'j upload option"
  req_body :: "'j payload"

text \<open>
  The result of \<^verbatim>\<open>chapterSchema.validate(chapter, {abortEarly: false, ...})\<close>: Joi is a
  library, so the schema's decision is a parameter \<open>validate\<close> of the middleware. An
  error carries its details (path, message, offending value).
\<close>

record 'j joi_detail =
  detail_path :: "string list"
  detail_message :: string
  detail_context_value :: "'j option"

datatype 'j joi_result = JoiError "'j joi_detail list" | JoiValue chapter_rec

text \<open>
  An entry of an \<^verbatim>\<open>errors\<close> array: validation entries have \<^verbatim>\<open>field, message, value\<close>,
  store entries have \<^verbatim>\<open>field, message, code\<close>.
\<close>

datatype 'j error_entry =
  ValidationIssue string string "'j option"
| StoreIssue string string "int option"

text \<open>
  What a rejection entry holds under \<^verbatim>\<open>chapter\<close>: the raw item (validation), the
  validated chapter looked up in \<^verbatim>\<open>validChapters\<close> (store fault), or \<^verbatim>\<open>undefined\<close>
  when that lookup is out of range.
\<close>

datatype 'j failed_subject = RawChapter 'j | ValidChapter chapter_rec | UndefinedChapter

record 'j failed_chapter =
  index :: nat
  chapter_val :: "'j failed_subject"
  errors :: "'j error_entry list"

record simple_response =
  sr_code :: nat
  sr_status :: string
  sr_message :: string
  sr_error :: "string option"

definition detail_entry :: "'j joi_detail \<Rightarrow> 'j error_entry" where
  "detail_entry d = ValidationIssue (join ''.'' (detail_path d)) (detail_message d) (detail_context_value d)"

text \<open>
  The body of \<^verbatim>\<open>chapters.forEach((chapter, index) => ...)\<close>: \<open>i\<close> is the index of the
  head of the remaining list; both result arrays grow by \<^verbatim>\<open>push\<close>.
\<close>

fun validateEach ::
  "('j \<Rightarrow> 'j joi_result) \<Rightarrow> nat \<Rightarrow> 'j list \<Rightarrow> chapter_rec list \<times> 'j failed_chapter list
     \<Rightarrow> chapter_rec list \<times> 'j failed_chapter list" where
  "validateEach validate i [] acc = acc"
| "validateEach validate i (c # cs) (validChapters, invalidChapters) =
     (case validate c of
        JoiError details \<Rightarrow>
          validateEach validate (Suc i) cs
            (validChapters,
             invalidChapters @ [\<lparr>index = i, chapter_val = RawChapter c, errors = map detail_entry details\<rparr>])
      | JoiValue v \<Rightarrow>
          validateEach validate (Suc i) cs (validChapters @ [v], invalidChapters))"

text \<open>
  The middleware answers 400 itself (\<open>Inl\<close>) or calls \<^verbatim>\<open>next()\<close> with
  \<^verbatim>\<open>req.validChapters\<close> and \<^verbatim>\<open>req.invalidChapters\<close> set (\<open>Inr\<close>).
\<close>

definition validateChaptersArray ::
  "('j \<Rightarrow> 'j joi_result) \<Rightarrow> 'j upload_request
     \<Rightarrow> simple_response + (chapter_rec list \<times> 'j failed_chapter list)" where
  "validateChaptersArray validate req =
     (case (case req_file req of
              Some (BadJson msg) \<Rightarrow>
                Inl \<lparr>sr_code = 400, sr_status = ''error'', sr_message = ''Invalid JSON file format'',
                     sr_error = Some msg\<rparr>
            | Some (GoodJson parsed) \<Rightarrow> Inr parsed
            | None \<Rightarrow> Inr (req_body req)) of
        Inl resp \<Rightarrow> Inl resp
      | Inr NotArray \<Rightarrow>
          Inl \<lparr>sr_code = 400, sr_status = ''error'', sr_message = ''Expected an array of chapters'',
               sr_error = None\<rparr>
      | Inr (IsArray chapters) \<Rightarrow> Inr (validateEach validate 0 chapters ([], [])))"

subsection \<open>The cache store: \<^verbatim>\<open>config/redis.js\<close>\<close>

text \<open>
  The Redis database as seen through the \<^verbatim>\<open>cache\<close> helpers: a list of entries
  \<open>(key, ttl, data)\<close> with one entry per key. Expiry by time is not modelled. Every
  helper catches the client's exceptions; \<open>up\<close> says whether the client's calls succeed.
\<close>

type_synonym 'd cache_store = "(string \<times> nat \<times> 'd) list"

text \<open>
  Modelled from the spec: the pattern matching of the cache store's \<^verbatim>\<open>KEYS\<close> command
  (pattern-based bulk delete), for patterns made of literal characters, \<^verbatim>\<open>?\<close> and
  \<^verbatim>\<open>*\<close>; the only pattern of the sources is \<^verbatim>\<open>chapters:*\<close>.
\<close>

fun glob_match :: "string \<Rightarrow> string \<Rightarrow> bool" where
  "glob_match [] s = (s = [])"
| "glob_match (p # ps) [] = (p = CHR ''*'' \<and> glob_match ps [])"
| "glob_match (p # ps) (c # cs) =
     (if p = CHR ''*'' then glob_match ps (c # cs) \<or> glob_match (p # ps) cs
      else if p = CHR ''?'' then glob_match ps cs
      else p = c \<and> glob_match ps cs)"

definition cache_get :: "bool \<Rightarrow> 'd cache_store \<Rightarrow> string \<Rightarrow> 'd option" where
  "cache_get up store key = (if up then map_option snd (map_of store key) else None)"

definition cache_set :: "bool \<Rightarrow> 'd cache_store \<Rightarrow> string \<Rightarrow> 'd \<Rightarrow> nat \<Rightarrow> 'd cache_store" where
  "cache_set up store key data ttl =
     (if up then filter (\<lambda>e. fst e \<noteq> key) store @ [(key, ttl, data)] else store)"

definition client_keys :: "'d cache_store \<Rightarrow> string \<Rightarrow> string list" where
  "client_keys store pattern = filter (glob_match pattern) (map fst store)"

definition client_del :: "'d cache_store \<Rightarrow> string list \<Rightarrow> 'd cache_store" where
  "client_del store keys = filter (\<lambda>e. fst e \<notin> set keys) store"

text \<open>\<^verbatim>\<open>cache.delPattern\<close>: the number of keys deleted and the store afterwards.\<close>

definition cache_delPattern :: "bool \<Rightarrow> 'd cache_store \<Rightarrow> string \<Rightarrow> nat \<times> 'd cache_store" where
  "cache_delPattern up store pattern =
     (if up then
        (let keys = client_keys store pattern
         in (length keys, if length keys > 0 then client_del store keys else store))
      else (0, store))"

subsection \<open>The cache middleware: \<^verbatim>\<open>middleware/cache.js\<close>\<close>

text \<open>
  The part of an Express request the cache key reads. \<^verbatim>\<open>req.query\<close> is an object; its
  values are held as the strings \<^verbatim>\<open>URLSearchParams\<close> turns them into.
\<close>

record http_request =
  req_method :: string
  req_path :: string
  req_query :: "string js_object"

text \<open>
  \<^verbatim>\<open>URLSearchParams.prototype.toString\<close>: the form-urlencoded serialisation of the
  object's entries, on the bytes of the strings.
\<close>

definition hex_digit :: "nat \<Rightarrow> char" where
  "hex_digit n = (if n < 10 then char_of (48 + n) else char_of (55 + n))"

definition is_unreserved :: "char \<Rightarrow> bool" where
  "is_unreserved c =
     (is_digit c \<or> ((65::nat) \<le> of_char c \<and> (of_char c :: nat) \<le> 90)
      \<or> ((97::nat) \<le> of_char c \<and> (of_char c :: nat) \<le> 122) \<or> c \<in> set ''*-._'')"

definition form_encode_char :: "char \<Rightarrow> string" where
  "form_encode_char c =
     (if c = CHR '' '' then ''+''
      else if is_unreserved c then [c]
      else [CHR ''%'', hex_digit (of_char c div 16), hex_digit (of_char c mod 16)])"

definition form_encode :: "string \<Rightarrow> string" where
  "form_encode s = concat (map form_encode_char s)"

definition URLSearchParams_toString :: "string js_object \<Rightarrow> string" where
  "URLSearchParams_toString obj = join ''&'' (map (\<lambda>(k, v). form_encode k @ ''='' @ form_encode v) obj)"

text \<open>
  \<^verbatim>\<open>Object.keys(req.query).sort().reduce((obj, key) => { obj[key] = req.query[key]; return obj }, {})\<close>.
  The default sort compares the keys as strings.
\<close>

definition sortedQuery :: "string js_object \<Rightarrow> string js_object" where
  "sortedQuery query =
     foldl (\<lambda>obj key. js_put obj key (case js_get query key of Some v \<Rightarrow> v | None \<Rightarrow> ''undefined''))
       [] (sort (Object_keys query))"

definition generateCacheKey :: "http_request \<Rightarrow> string" where
  "generateCacheKey req =
     (let baseKey = ''chapters:'' @ req_method req @ '':'' @ req_path req
      in if req_method req = ''GET'' \<and> length (Object_keys (req_query req)) > 0
         then baseKey @ ''?'' @ URLSearchParams_toString (sortedQuery (req_query req))
         else baseKey)"

text \<open>
  A JSON response body with its \<^verbatim>\<open>status\<close> field, and what the route handler behind
  the middleware does: it sends \<^verbatim>\<open>res.status(code).json(data)\<close> or calls
  \<^verbatim>\<open>next(error)\<close>.
\<close>

record 'p api_body =
  body_status :: string
  body_data :: 'p

datatype 'p downstream = Responds nat "'p api_body" | NextError

record 'p sent =
  sent_code :: nat
  sent_body :: "'p api_body"
  sent_cached :: bool
  sent_cacheKey :: "string option"

text \<open>
  \<^verbatim>\<open>cacheMiddleware(ttl)\<close>: what is sent (nothing when the handler passed an error on)
  and the cache afterwards. \<open>dev\<close> is \<^verbatim>\<open>NODE_ENV === "development"\<close>.
\<close>

definition cacheMiddleware ::
  "nat \<Rightarrow> bool \<Rightarrow> bool \<Rightarrow> http_request \<Rightarrow> 'p api_body cache_store \<Rightarrow> 'p downstream
     \<Rightarrow> 'p sent option \<times> 'p api_body cache_store" where
  "cacheMiddleware ttl dev up req store handler =
     (if req_method req \<noteq> ''GET'' then
        (case handler of
           Responds code data \<Rightarrow>
             (Some \<lparr>sent_code = code, sent_body = data, sent_cached = False, sent_cacheKey = None\<rparr>, store)
         | NextError \<Rightarrow> (None, store))
      else
        (let cacheKey = generateCacheKey req in
         case cache_get up store cacheKey of
           Some cachedData \<Rightarrow>
             (Some \<lparr>sent_code = 200, sent_body = cachedData, sent_cached = True,
                    sent_cacheKey = (if dev then Some cacheKey else None)\<rparr>, store)
         | None \<Rightarrow>
             (case handler of
                Responds code data \<Rightarrow>
                  (Some \<lparr>sent_code = code, sent_body = data, sent_cached = False, sent_cacheKey = None\<rparr>,
                   if code = 200 \<and> body_status data = ''success''
                   then cache_set up store cacheKey data ttl else store)
              | NextError \<Rightarrow> (None, store))))"

definition clearCachePattern :: "bool \<Rightarrow> 'd cache_store \<Rightarrow> string \<Rightarrow> nat \<times> 'd cache_store" where
  "clearCachePattern up store pattern = cache_delPattern up store pattern"

definition clearChapterCache :: "bool \<Rightarrow> 'd cache_store \<Rightarrow> nat \<times> 'd cache_store" where
  "clearChapterCache up store = clearCachePattern up store ''chapters:*''"

subsection \<open>The controller: \<^verbatim>\<open>createChapters\<close>\<close>

text \<open>
  What \<^verbatim>\<open>Chapter.insertMany(validChapters, {ordered: false})\<close> can do: return a
  value, or throw. Of the thrown error the handler reads \<^verbatim>\<open>writeErrors\<close> (tested for
  truthiness, then iterated with \<^verbatim>\<open>forEach\<close>) and \<^verbatim>\<open>insertedDocs\<close>; of each write
  error it reads \<^verbatim>\<open>index\<close>, \<^verbatim>\<open>errmsg\<close> and \<^verbatim>\<open>code\<close>.
\<close>

record write_error =
  we_index :: nat
  we_errmsg :: "string option"
  we_code :: "int option"

datatype write_errors_prop = WriteErrorsFalsy | WriteErrorsNoArray | WriteErrorsArray "write_error list"

datatype docs_value = DocsFalsy | DocsNoArray | DocsArray "chapter_doc list"

record bulk_error =
  writeErrors :: write_errors_prop
  insertedDocs :: docs_value
  error_message :: string

datatype insert_outcome = Returned docs_value | Threw bulk_error

text \<open>What reaches \<^verbatim>\<open>next(error)\<close>: the error thrown again, or the \<^verbatim>\<open>TypeError\<close> of
  calling \<^verbatim>\<open>forEach\<close> on a value that has none.\<close>

datatype thrown = Rethrown bulk_error | TypeError

record saved_summary =
  saved_id :: string
  saved_subject :: string
  saved_chapter :: string
  saved_class :: string
  saved_unit :: string

text \<open>The JSON response; the \<^verbatim>\<open>timestamp\<close> (the clock) is left out. \<^verbatim>\<open>data.failedChapters\<close> is
  present only when there are failures.\<close>

record 'j create_response =
  resp_status :: string
  resp_message :: string
  savedCount :: nat
  failedCount :: nat
  data_savedChapters :: "saved_summary list"
  data_failedChapters :: "'j failed_chapter list option"

datatype 'j create_result = Sent nat "'j create_response" | NextErr thrown

text \<open>The calls the handler makes to the store and to the cache, in order.\<close>

datatype effect = InsertMany "chapter_rec list" | ClearChapterCache

record ('j, 'd) create_run =
  run_effects :: "effect list"
  run_cache :: "'d cache_store"
  run_result :: "'j create_result"

text \<open>\<^verbatim>\<open>validChapters[i]\<close>: \<^verbatim>\<open>undefined\<close> out of range.\<close>

definition valid_at :: "chapter_rec list \<Rightarrow> nat \<Rightarrow> 'j failed_subject" where
  "valid_at validChapters i =
     (if i < length validChapters then ValidChapter (validChapters ! i) else UndefinedChapter)"

text \<open>
  \<^verbatim>\<open>bulkError.writeErrors.forEach((writeError, index) => failedChapters.push({index: index,
  chapter: validChapters[writeError.index], errors: [...]}))\<close>: \<open>i\<close> is the second
  argument of the callback, the position in \<^verbatim>\<open>writeErrors\<close>.
\<close>

fun pushWriteErrors ::
  "chapter_rec list \<Rightarrow> nat \<Rightarrow> write_error list \<Rightarrow> 'j failed_chapter list \<Rightarrow> 'j failed_chapter list" where
  "pushWriteErrors validChapters i [] failedChapters = failedChapters"
| "pushWriteErrors validChapters i (writeError # rest) failedChapters =
     pushWriteErrors validChapters (Suc i) rest
       (failedChapters @
        [\<lparr>index = i,
          chapter_val = valid_at validChapters (we_index writeError),
          errors = [StoreIssue ''document''
                      (case js_or (we_errmsg writeError) (Some ''Database insertion failed'') of
                         Some m \<Rightarrow> m | None \<Rightarrow> [])
                      (we_code writeError)]\<rparr>])"

text \<open>\<^verbatim>\<open>Array.isArray(v) ? v : []\<close>, after \<^verbatim>\<open>v || []\<close>.\<close>

definition array_or_empty :: "docs_value \<Rightarrow> chapter_doc list" where
  "array_or_empty v = (case v of DocsArray docs \<Rightarrow> docs | _ \<Rightarrow> [])"

definition summary :: "chapter_doc \<Rightarrow> saved_summary" where
  "summary doc =
     \<lparr>saved_id = doc_id doc, saved_subject = subject doc, saved_chapter = chapter_name doc,
      saved_class = class_name doc, saved_unit = unit_name doc\<rparr>"

definition build_response :: "chapter_doc list \<Rightarrow> 'j failed_chapter list \<Rightarrow> 'j create_response" where
  "build_response saved failed =
     \<lparr>resp_status = (if length saved > 0 then ''success'' else ''error''),
      resp_message =
        show_nat (length saved) @ '' chapters saved successfully'' @
        (if length failed > 0 then '', '' @ show_nat (length failed) @ '' chapters failed'' else []),
      savedCount = length saved,
      failedCount = length failed,
      data_savedChapters = map summary saved,
      data_failedChapters = (if length failed > 0 then Some failed else None)\<rparr>"

definition respond ::
  "effect list \<Rightarrow> 'd cache_store \<Rightarrow> chapter_doc list \<Rightarrow> 'j failed_chapter list \<Rightarrow> ('j, 'd) create_run" where
  "respond effects cache saved failed =
     \<lparr>run_effects = effects, run_cache = cache,
      run_result = Sent (if length saved > 0 then 201 else 400) (build_response saved failed)\<rparr>"

text \<open>
  The handler. \<open>insertMany\<close> is the store's answer to the bulk insert of a list,
  \<open>up\<close> and \<open>cache\<close> are the cache store's state; the request contributes
  \<^verbatim>\<open>req.validChapters\<close> and \<^verbatim>\<open>req.invalidChapters\<close>.
\<close>

definition createChapters ::
  "(chapter_rec list \<Rightarrow> insert_outcome) \<Rightarrow> bool \<Rightarrow> 'd cache_store
     \<Rightarrow> chapter_rec list \<Rightarrow> 'j failed_chapter list \<Rightarrow> ('j, 'd) create_run" where
  "createChapters insertMany up cache validChapters invalidChapters =
     (if length validChapters > 0 then
        (case insertMany validChapters of
           Returned docs \<Rightarrow>
             respond [InsertMany validChapters, ClearChapterCache] (snd (clearChapterCache up cache))
               (array_or_empty docs) invalidChapters
         | Threw bulkError \<Rightarrow>
             (case writeErrors bulkError of
                WriteErrorsArray ws \<Rightarrow>
                  respond [InsertMany validChapters] cache (array_or_empty (insertedDocs bulkError))
                    (pushWriteErrors validChapters 0 ws invalidChapters)
              | WriteErrorsNoArray \<Rightarrow>
                  \<lparr>run_effects = [InsertMany validChapters], run_cache = cache, run_result = NextErr TypeError\<rparr>
              | WriteErrorsFalsy \<Rightarrow>
                  \<lparr>run_effects = [InsertMany validChapters], run_cache = cache,
                   run_result = NextErr (Rethrown bulkError)\<rparr>))
      else respond [] cache [] invalidChapters)"

text \<open>The last two steps of the route \<^verbatim>\<open>POST /\<close>: validation, then the handler.\<close>

definition postChapters ::
  "('j \<Rightarrow> 'j joi_result) \<Rightarrow> (chapter_rec list \<Rightarrow> insert_outcome) \<Rightarrow> bool \<Rightarrow> 'd cache_store
     \<Rightarrow> 'j upload_request \<Rightarrow> simple_response + ('j, 'd) create_run" where
  "postChapters validate insertMany up cache req =
     (case validateChaptersArray validate req of
        Inl resp \<Rightarrow> Inl resp
      | Inr (validChapters, invalidChapters) \<Rightarrow>
          Inr (createChapters insertMany up cache validChapters invalidChapters))"

text \<open>
  Modelled from the spec: the document store's bulk insert under a uniqueness
  constraint on (subject, chapter, class, unit), which the sources do not contain
  (Mongoose and the database). With \<^verbatim>\<open>ordered: false\<close> every record whose key is free
  is inserted and every other record is reported as a fault with its position in the
  array passed in; the call throws when there is a fault.
\<close>

definition unique_key :: "'a chapter_rec_scheme \<Rightarrow> string \<times> string \<times> string \<times> string" where
  "unique_key c = (subject c, chapter_name c, class_name c, unit_name c)"

definition as_doc :: "string \<Rightarrow> chapter_rec \<Rightarrow> chapter_doc" where
  "as_doc i c = chapter_rec.extend c \<lparr>doc_id = i\<rparr>"

fun insert_each ::
  "chapter_doc list \<Rightarrow> nat \<Rightarrow> chapter_rec list \<Rightarrow> chapter_doc list \<times> chapter_doc list \<times> write_error list" where
  "insert_each collection i [] = (collection, [], [])"
| "insert_each collection i (c # cs) =
     (if unique_key c \<in> set (map unique_key collection) then
        (case insert_each collection (Suc i) cs of
           (collection', inserted, faults) \<Rightarrow>
             (collection', inserted,
              \<lparr>we_index = i, we_errmsg = Some ''E11000 duplicate key error'', we_code = Some 11000\<rparr> # faults))
      else
        (let doc = as_doc (show_nat (length collection)) c in
         case insert_each (collection @ [doc]) (Suc i) cs of
           (collection', inserted, faults) \<Rightarrow> (collection', doc # inserted, faults)))"

definition insertMany_unique :: "chapter_doc list \<Rightarrow> chapter_rec list \<Rightarrow> chapter_doc list \<times> insert_outcome" where
  "insertMany_unique collection records =
     (case insert_each collection 0 records of
        (collection', inserted, faults) \<Rightarrow>
          (collection',
           if faults = [] then Returned (DocsArray inserted)
           else Threw \<lparr>writeErrors = WriteErrorsArray faults, insertedDocs = DocsArray inserted,
                       error_message = ''E11000 duplicate key error''\<rparr>))"

subsection \<open>The controller: \<^verbatim>\<open>getStatistics\<close>\<close>

text \<open>
  The aggregation pipeline is run by the database; its operators are modelled as the
  database documents them. A field path \<^verbatim>\<open>$yearWiseQuestionCount.K\<close> resolves to the
  count stored under the key \<open>K\<close>, and to nothing when the sub-document has no such
  key: the schema of the sub-document has the seven keys 2019 to 2025 and no other.
\<close>

definition year_field :: "year_counts \<Rightarrow> string \<Rightarrow> int option" where
  "year_field counts k =
     (if k = ''2019'' then Some (y2019 counts)
      else if k = ''2020'' then Some (y2020 counts)
      else if k = ''2021'' then Some (y2021 counts)
      else if k = ''2022'' then Some (y2022 counts)
      else if k = ''2023'' then Some (y2023 counts)
      else if k = ''2024'' then Some (y2024 counts)
      else if k = ''2025'' then Some (y2025 counts)
      else None)"

fun strip_prefix :: "string \<Rightarrow> string \<Rightarrow> string option" where
  "strip_prefix [] s = Some s"
| "strip_prefix (p # ps) [] = None"
| "strip_prefix (p # ps) (c # cs) = (if p = c then strip_prefix ps cs else None)"

definition resolve_path :: "'a chapter_rec_scheme \<Rightarrow> string \<Rightarrow> int option" where
  "resolve_path doc path =
     (case strip_prefix ''$yearWiseQuestionCount.'' path of
        Some k \<Rightarrow> year_field (yearWiseQuestionCount doc) k
      | None \<Rightarrow> None)"

text \<open>
  \<^verbatim>\<open>Object.values({2019: 1, 2020: 1, 2021: 1, 2022: 1, 2023: 1, 2024: 1, 2025: 1})\<close> is
  the array of the property values, and
  \<^verbatim>\<open>.map((year) => `$yearWiseQuestionCount.${year}`)\<close> builds one field path from each.
\<close>

definition object_values_years :: "nat list" where
  "object_values_years = [1, 1, 1, 1, 1, 1, 1]"

definition year_paths :: "string list" where
  "year_paths = map (\<lambda>year. ''$yearWiseQuestionCount.'' @ show_nat year) object_values_years"

text \<open>\<^verbatim>\<open>$sum\<close> over the resolved operands: an operand that is missing counts as 0.\<close>

definition mongo_sum :: "int option list \<Rightarrow> int" where
  "mongo_sum vs = sum_list (map (\<lambda>v. case v of Some n \<Rightarrow> n | None \<Rightarrow> 0) vs)"

text \<open>
  The expression under \<^verbatim>\<open>$avg\<close>:
  \<^verbatim>\<open>$cond: [ {$gt: [sum, 0]}, {$multiply: [{$divide: ["$questionSolved", sum]}, 100]}, 0 ]\<close>.
  The database computes in floating point; the model computes the exact quotient.
\<close>

definition completionRate :: "'a chapter_rec_scheme \<Rightarrow> rat" where
  "completionRate doc =
     (let total = mongo_sum (map (resolve_path doc) year_paths)
      in if total > 0 then (of_int (questionSolved doc) / of_int total) * 100 else 0)"

text \<open>
  \<^verbatim>\<open>$sum: "$questionSolved"\<close> adds the values as the database holds them, in double
  precision. Integers are added exactly as long as every summand and every partial sum
  stays within \<open>2 ^ 53\<close> in absolute value; beyond that the result is rounded, and
  the model gives no value.
\<close>

fun double_sum :: "int \<Rightarrow> int list \<Rightarrow> int option" where
  "double_sum acc [] = Some acc"
| "double_sum acc (x # xs) =
     (if \<bar>x\<bar> \<le> 9007199254740992 \<and> \<bar>acc + x\<bar> \<le> 9007199254740992
      then double_sum (acc + x) xs else None)"

record stats_group =
  totalChapters :: nat
  totalQuestionsSolved :: "int option"
  weakChapters :: nat
  statusDistribution :: "string list"
  subjectDistribution :: "string list"
  avgCompletionRate :: rat

text \<open>\<^verbatim>\<open>Chapter.aggregate([{$group: {_id: null, ...}}])\<close>: one group when the collection
  has a document, no group otherwise.\<close>

definition aggregate_group :: "chapter_doc list \<Rightarrow> stats_group list" where
  "aggregate_group docs =
     (if docs = [] then []
      else [\<lparr>totalChapters = length docs,
             totalQuestionsSolved = double_sum 0 (map questionSolved docs),
             weakChapters = length (filter isWeakChapter docs),
             statusDistribution = map status docs,
             subjectDistribution = map subject docs,
             avgCompletionRate = sum_list (map completionRate docs) / of_nat (length docs)\<rparr>])"

text \<open>\<^verbatim>\<open>list.reduce((acc, s) => { acc[s] = (acc[s] || 0) + 1; return acc }, {})\<close>.\<close>

definition count_by :: "string list \<Rightarrow> nat js_object" where
  "count_by xs = foldl (\<lambda>acc s. js_put acc s ((case js_get acc s of Some n \<Rightarrow> n | None \<Rightarrow> 0) + 1)) [] xs"

text \<open>\<^verbatim>\<open>Math.round\<close>: the nearest integer, halves upwards. It is applied to
  \<^verbatim>\<open>result.avgCompletionRate || 0\<close>, which is the average itself: the average is a number,
  and for the number 0 both sides of \<^verbatim>\<open>||\<close> are 0.\<close>

definition Math_round :: "rat \<Rightarrow> int" where
  "Math_round x = \<lfloor>x + 1 / 2\<rfloor>"

record stats_response =
  overview_totalChapters :: nat
  overview_totalQuestionsSolved :: "int option"
  overview_weakChapters :: nat
  averageCompletionRate :: int
  distributions_status :: "nat js_object"
  distributions_subject :: "nat js_object"

definition getStatistics :: "chapter_doc list \<Rightarrow> stats_response" where
  "getStatistics docs =
     (let result =
            (case aggregate_group docs of
               g # _ \<Rightarrow> g
             | [] \<Rightarrow> \<lparr>totalChapters = 0, totalQuestionsSolved = Some 0, weakChapters = 0,
                      statusDistribution = [], subjectDistribution = [], avgCompletionRate = 0\<rparr>)
      in \<lparr>overview_totalChapters = totalChapters result,
          overview_totalQuestionsSolved = totalQuestionsSolved result,
          overview_weakChapters = weakChapters result,
          averageCompletionRate = Math_round (avgCompletionRate result),
          distributions_status = count_by (statusDistribution result),
          distributions_subject = count_by (subjectDistribution result)\<rparr>)"

text \<open>
  The formula of the specification, for comparison: per record, \<^verbatim>\<open>questionSolved\<close>
  divided by the sum of the seven per-year counts, times 100, and 0 when that sum is 0;
  then the average over all records.
\<close>

definition spec_year_total :: "'a chapter_rec_scheme \<Rightarrow> int" where
  "spec_year_total doc =
     (let c = yearWiseQuestionCount doc
      in y2019 c + y2020 c + y2021 c + y2022 c + y2023 c + y2024 c + y2025 c)"

definition spec_completionRate :: "'a chapter_rec_scheme \<Rightarrow> rat" where
  "spec_completionRate doc =
     (if spec_year_total doc = 0 then 0
      else of_int (questionSolved doc) / of_int (spec_year_total doc) * 100)"

definition spec_averageCompletionRate :: "chapter_doc list \<Rightarrow> rat" where
  "spec_averageCompletionRate docs = sum_list (map spec_completionRate docs) / of_nat (length docs)"

subsection \<open>The rate limiters: \<^verbatim>\<open>middleware/rateLimiter.js\<close>\<close>

record client_request =
  ip :: "string option"
  connection_remoteAddress :: "string option"
  socket_remoteAddress :: "string option"
  client_path :: string

text \<open>The body of the 429 response; its \<^verbatim>\<open>timestamp\<close> (the clock) is left out.\<close>

record limit_body =
  limit_status :: string
  limit_message :: string
  retryAfter :: nat

datatype limiter_result = Passed | Rejected nat limit_body

record limiter_config =
  windowMs :: nat
  max_requests :: nat
  keyGenerator :: "client_request \<Rightarrow> string"
  handler :: "client_request \<Rightarrow> nat \<times> limit_body"
  skip_request :: "client_request \<Rightarrow> bool"

text \<open>
  Modelled from the spec: the fixed-window counter behind \<^verbatim>\<open>rateLimit({...})\<close>
  (express-rate-limit and its Redis store, which the sources do not contain). The
  store maps an identity key to its request count and to the time, in milliseconds,
  at which its window ends. A request outside a running window opens a new one. A
  request the \<^verbatim>\<open>skip\<close> function exempts is not counted; a counted request whose
  count exceeds \<^verbatim>\<open>max\<close> is given to the \<^verbatim>\<open>handler\<close>.
\<close>

type_synonym hit_store = "(string \<times> nat \<times> nat) list"

definition increment :: "nat \<Rightarrow> nat \<Rightarrow> hit_store \<Rightarrow> string \<Rightarrow> (nat \<times> nat) \<times> hit_store" where
  "increment window now store key =
     (let entry =
            (case map_of store key of
               Some (totalHits, resetTime) \<Rightarrow>
                 if now < resetTime then (Suc totalHits, resetTime) else (1, now + window)
             | None \<Rightarrow> (1, now + window))
      in (entry, (key, entry) # filter (\<lambda>e. fst e \<noteq> key) store))"

definition rateLimit :: "limiter_config \<Rightarrow> nat \<Rightarrow> hit_store \<Rightarrow> client_request \<Rightarrow> limiter_result \<times> hit_store" where
  "rateLimit config now store req =
     (if skip_request config req then (Passed, store)
      else
        (case increment (windowMs config) now store (keyGenerator config req) of
           ((totalHits, resetTime), store') \<Rightarrow>
             (if totalHits > max_requests config
              then (case handler config req of (code, body) \<Rightarrow> Rejected code body)
              else Passed,
              store')))"

text \<open>The time left in the window of a key, in whole seconds (rounded up).\<close>

definition remaining_seconds :: "hit_store \<Rightarrow> string \<Rightarrow> nat \<Rightarrow> nat" where
  "remaining_seconds store key now =
     (case map_of store key of
        Some (totalHits, resetTime) \<Rightarrow> (resetTime - now + 999) div 1000
      | None \<Rightarrow> 0)"

text \<open>\<^verbatim>\<open>req.ip || req.connection.remoteAddress || req.socket.remoteAddress\<close>, printed as a
  template literal prints it.\<close>

definition client_address :: "client_request \<Rightarrow> string" where
  "client_address req =
     (case js_or (js_or (ip req) (connection_remoteAddress req)) (socket_remoteAddress req) of
        Some a \<Rightarrow> a
      | None \<Rightarrow> ''undefined'')"

definition rateLimiter_config :: limiter_config where
  "rateLimiter_config =
     \<lparr>windowMs = 60 * 1000,
      max_requests = 30,
      keyGenerator = client_address,
      handler = (\<lambda>req. (429,
        \<lparr>limit_status = ''error'',
         limit_message = ''Too many requests from this IP, please try again after a minute.'',
         retryAfter = 60\<rparr>)),
      skip_request = (\<lambda>req. client_path req = ''/health'')\<rparr>"

definition adminRateLimiter_config :: limiter_config where
  "adminRateLimiter_config =
     \<lparr>windowMs = 60 * 1000,
      max_requests = 100,
      keyGenerator = (\<lambda>req. ''admin_'' @ client_address req),
      handler = (\<lambda>req. (429,
        \<lparr>limit_status = ''error'',
         limit_message = ''Too many admin requests from this IP, please try again after a minute.'',
         retryAfter = 60\<rparr>)),
      skip_request = (\<lambda>req. False)\<rparr>"

definition rateLimiter :: "nat \<Rightarrow> hit_store \<Rightarrow> client_request \<Rightarrow> limiter_result \<times> hit_store" where
  "rateLimiter = rateLimit rateLimiter_config"

definition adminRateLimiter :: "nat \<Rightarrow> hit_store \<Rightarrow> client_request \<Rightarrow> limiter_result \<times> hit_store" where
  "adminRateLimiter = rateLimit adminRateLimiter_config"

subsection \<open>Sample data\<close>

text \<open>The record of the specification's scenario, and a validator over raw items that
  are strings: it accepts the item \<^verbatim>\<open>ok\<close> and rejects every other item.\<close>

definition example_chapter :: chapter_rec where
  "example_chapter =
     \<lparr>subject = ''Math'', chapter_name = ''Algebra'', class_name = ''Class 10'', unit_name = ''Unit 1'',
      yearWiseQuestionCount = \<lparr>y2019 = 0, y2020 = 0, y2021 = 0, y2022 = 0, y2023 = 0, y2024 = 5, y2025 = 0\<rparr>,
      questionSolved = 0, status = ''Not Started'', isWeakChapter = False\<rparr>"

definition example_validate :: "string \<Rightarrow> string joi_result" where
  "example_validate raw =
     (if raw = ''ok'' then JoiValue example_chapter
      else JoiError [\<lparr>detail_path = [''subject''], detail_message = ''Subject is required'',
                      detail_context_value = None\<rparr>])"

text \<open>A second record, with another chapter name, and the first record as stored with
  5 questions solved out of the 10 asked in 2024.\<close>

definition geometry_chapter :: chapter_rec where
  "geometry_chapter = example_chapter\<lparr>chapter_name := ''Geometry''\<rparr>"

definition half_solved_doc :: chapter_doc where
  "half_solved_doc =
     as_doc ''0''
       (example_chapter
          \<lparr>yearWiseQuestionCount := \<lparr>y2019 = 0, y2020 = 0, y2021 = 0, y2022 = 0, y2023 = 0, y2024 = 10, y2025 = 0\<rparr>,
           questionSolved := 5\<rparr>)"

text \<open>The error of a bulk insert of two records of which the second, at position 1, is
  a duplicate, and the first was inserted.\<close>

definition duplicate_at_1 :: bulk_error where
  "duplicate_at_1 =
     \<lparr>writeErrors = WriteErrorsArray
        [\<lparr>we_index = 1, we_errmsg = Some ''E11000 duplicate key error'', we_code = Some 11000\<rparr>],
      insertedDocs = DocsArray [as_doc ''1'' example_chapter],
      error_message = ''E11000 duplicate key error''\<rparr>"

section \<open>Properties\<close>

subsection \<open>Batch validation\<close>

lemma validateEach_lengths:
  "validateEach validate i cs (vs, fs) = (vs', fs') \<Longrightarrow>
     length vs' + length fs' = length vs + length fs + length cs"
  by (induction cs arbitrary: i vs fs) (auto split: joi_result.splits)

lemma validateEach_accepted:
  "fst (validateEach validate i cs (vs, fs)) =
     vs @ List.map_filter (\<lambda>c. case validate c of JoiValue v \<Rightarrow> Some v | JoiError d \<Rightarrow> None) cs"
  by (induction cs arbitrary: i vs fs) (auto simp: List.map_filter_simps split: joi_result.splits)

lemma validateEach_keeps:
  "set fs \<subseteq> set (snd (validateEach validate i cs (vs, fs)))"
proof (induction cs arbitrary: i vs fs)
  case Nil
  show ?case by simp
next
  case (Cons c cs)
  show ?case
  proof (cases "validate c")
    case (JoiError d)
    let ?e = "\<lparr>index = i, chapter_val = RawChapter c, errors = map detail_entry d\<rparr>"
    have "set (fs @ [?e]) \<subseteq> set (snd (validateEach validate (Suc i) cs (vs, fs @ [?e])))"
      by (rule Cons.IH)
    with JoiError show ?thesis by simp
  next
    case (JoiValue v)
    with Cons.IH [of fs "Suc i" "vs @ [v]"] show ?thesis by simp
  qed
qed

lemma validateEach_distinct:
  "\<lbrakk>\<forall>e\<in>set fs. index e < i; distinct (map index fs)\<rbrakk> \<Longrightarrow>
     distinct (map index (snd (validateEach validate i cs (vs, fs)))) \<and>
     (\<forall>e\<in>set (snd (validateEach validate i cs (vs, fs))). index e < i + length cs)"
proof (induction cs arbitrary: i vs fs)
  case Nil
  then show ?case by simp
next
  case (Cons c cs)
  show ?case
  proof (cases "validate c")
    case (JoiError d)
    let ?e = "\<lparr>index = i, chapter_val = RawChapter c, errors = map detail_entry d\<rparr>"
    have bound: "\<forall>e\<in>set (fs @ [?e]). index e < Suc i"
      using Cons.prems(1) by (auto simp: less_Suc_eq)
    have dist: "distinct (map index (fs @ [?e]))"
      using Cons.prems by auto
    from Cons.IH [OF bound dist, of vs] JoiError show ?thesis by simp
  next
    case (JoiValue v)
    have bound: "\<forall>e\<in>set fs. index e < Suc i"
      using Cons.prems(1) by (auto simp: less_Suc_eq)
    from Cons.IH [OF bound Cons.prems(2), of "vs @ [v]"] JoiValue show ?thesis by simp
  qed
qed

lemma validateEach_entry:
  "e \<in> set (snd (validateEach validate i cs (vs, fs))) \<Longrightarrow>
     e \<in> set fs \<or>
     (i \<le> index e \<and> index e < i + length cs \<and> chapter_val e = RawChapter (cs ! (index e - i)) \<and>
      (\<exists>d. validate (cs ! (index e - i)) = JoiError d \<and> errors e = map detail_entry d))"
proof (induction cs arbitrary: i vs fs)
  case Nil
  then show ?case by simp
next
  case (Cons c cs)
  show ?case
  proof (cases "validate c")
    case (JoiError d)
    let ?e = "\<lparr>index = i, chapter_val = RawChapter c, errors = map detail_entry d\<rparr>"
    from Cons.prems JoiError
    have "e \<in> set (snd (validateEach validate (Suc i) cs (vs, fs @ [?e])))" by simp
    from Cons.IH [OF this] JoiError show ?thesis
      by (auto simp: Suc_diff_le)
  next
    case (JoiValue v)
    from Cons.prems JoiValue
    have "e \<in> set (snd (validateEach validate (Suc i) cs (vs @ [v], fs)))" by simp
    from Cons.IH [OF this] show ?thesis
      by (auto simp: Suc_diff_le)
  qed
qed

lemma validateEach_rejects:
  "\<lbrakk>j < length cs; validate (cs ! j) = JoiError d\<rbrakk> \<Longrightarrow>
     i + j \<in> index ` set (snd (validateEach validate i cs (vs, fs)))"
proof (induction cs arbitrary: i j vs fs)
  case Nil
  then show ?case by simp
next
  case (Cons c cs)
  show ?case
  proof (cases j)
    case 0
    with Cons.prems have err: "validate c = JoiError d" by simp
    let ?e = "\<lparr>index = i, chapter_val = RawChapter c, errors = map detail_entry d\<rparr>"
    have "?e \<in> set (snd (validateEach validate (Suc i) cs (vs, fs @ [?e])))"
      using validateEach_keeps [of "fs @ [?e]" validate "Suc i" cs vs] by auto
    then have "index ?e \<in> index ` set (snd (validateEach validate (Suc i) cs (vs, fs @ [?e])))"
      by (rule imageI)
    with err 0 show ?thesis by simp
  next
    case (Suc k)
    with Cons.prems have k: "k < length cs" "validate (cs ! k) = JoiError d" by auto
    show ?thesis
    proof (cases "validate c")
      case (JoiError d')
      from Cons.IH [OF k, of "Suc i" vs] JoiError Suc show ?thesis by simp
    next
      case (JoiValue v)
      from Cons.IH [OF k, of "Suc i" "vs @ [v]" fs] JoiValue Suc show ?thesis by simp
    qed
  qed
qed

text \<open>
  Claim C5. For every input array given to batch validation, the middleware hands on
  two lists whose lengths add up to the length of the input. The \<^verbatim>\<open>index\<close> fields of
  the rejection entries are pairwise distinct and lie within the bounds of the input;
  each entry holds the raw item at its index, which the schema rejected. An item is
  rejected exactly when the schema rejects it, and the accepted list holds the
  validated values of all the other items, in order: every item is in exactly one of the
  two lists.
\<close>

theorem validateChaptersArray_partition:
  assumes "req_file req = None \<and> req_body req = IsArray chapters
           \<or> req_file req = Some (GoodJson (IsArray chapters))"
  shows "\<exists>validChapters invalidChapters.
           validateChaptersArray validate req = Inr (validChapters, invalidChapters)
           \<and> length validChapters + length invalidChapters = length chapters
           \<and> distinct (map index invalidChapters)
           \<and> (\<forall>e\<in>set invalidChapters.
                 index e < length chapters \<and> chapter_val e = RawChapter (chapters ! index e)
                 \<and> (\<exists>d. validate (chapters ! index e) = JoiError d \<and> errors e = map detail_entry d))
           \<and> (\<forall>i<length chapters.
                 (\<exists>d. validate (chapters ! i) = JoiError d) = (i \<in> index ` set invalidChapters))
           \<and> validChapters =
               List.map_filter (\<lambda>c. case validate c of JoiValue v \<Rightarrow> Some v | JoiError d \<Rightarrow> None) chapters"
proof -
  obtain vs fs where run: "validateEach validate 0 chapters ([], []) = (vs, fs)"
    by (cases "validateEach validate 0 chapters ([], [])")
  have res: "validateChaptersArray validate req = Inr (vs, fs)"
    using assms run by (auto simp: validateChaptersArray_def)
  have len: "length vs + length fs = length chapters"
    using validateEach_lengths [OF run] by simp
  have fs: "fs = snd (validateEach validate 0 chapters ([], []))"
    and vs: "vs = fst (validateEach validate 0 chapters ([], []))"
    using run by simp_all
  have dist: "distinct (map index fs)" and bound: "\<forall>e\<in>set fs. index e < length chapters"
    using validateEach_distinct [of "[]" 0 validate chapters "[]"] fs by simp_all
  have entry: "chapter_val e = RawChapter (chapters ! index e)
               \<and> (\<exists>d. validate (chapters ! index e) = JoiError d \<and> errors e = map detail_entry d)"
    if "e \<in> set fs" for e
    using validateEach_entry [of e validate 0 chapters "[]" "[]"] that fs by simp
  have rej: "(\<exists>d. validate (chapters ! i) = JoiError d) = (i \<in> index ` set fs)"
    if i: "i < length chapters" for i
  proof
    assume "\<exists>d. validate (chapters ! i) = JoiError d"
    then obtain d where "validate (chapters ! i) = JoiError d" ..
    with validateEach_rejects [where validate = validate and cs = chapters and j = i and d = d
        and i = 0 and vs = "[]" and fs = "[]"] i fs
    show "i \<in> index ` set fs" by simp
  next
    assume "i \<in> index ` set fs"
    then obtain e where "e \<in> set fs" "i = index e" by auto
    with entry [of e] show "\<exists>d. validate (chapters ! i) = JoiError d" by auto
  qed
  have acc: "vs = List.map_filter (\<lambda>c. case validate c of JoiValue v \<Rightarrow> Some v | JoiError d \<Rightarrow> None) chapters"
    using validateEach_accepted [of validate 0 chapters "[]" "[]"] vs by simp
  from res len dist bound entry rej acc show ?thesis by blast
qed

text \<open>An instance: four items, the second and the fourth rejected.\<close>

theorem validateChaptersArray_partition_witness:
  "req_file \<lparr>req_file = None, req_body = IsArray [''ok'', ''bad'', ''ok'', ''worse'']\<rparr> = None
   \<and> validateChaptersArray example_validate
        \<lparr>req_file = None, req_body = IsArray [''ok'', ''bad'', ''ok'', ''worse'']\<rparr>
      = Inr ([example_chapter, example_chapter],
             [\<lparr>index = 1, chapter_val = RawChapter ''bad'',
               errors = [ValidationIssue ''subject'' ''Subject is required'' None]\<rparr>,
              \<lparr>index = 3, chapter_val = RawChapter ''worse'',
               errors = [ValidationIssue ''subject'' ''Subject is required'' None]\<rparr>])
   \<and> (\<exists>validChapters invalidChapters.
           validateChaptersArray example_validate
             \<lparr>req_file = None, req_body = IsArray [''ok'', ''bad'', ''ok'', ''worse'']\<rparr>
             = Inr (validChapters, invalidChapters)
           \<and> length validChapters + length invalidChapters = 4
           \<and> distinct (map index invalidChapters)
           \<and> (\<forall>e\<in>set invalidChapters. index e < 4))"
proof -
  let ?req = "\<lparr>req_file = None, req_body = IsArray [''ok'', ''bad'', ''ok'', ''worse'']\<rparr>"
  have input: "req_file ?req = None \<and> req_body ?req = IsArray [''ok'', ''bad'', ''ok'', ''worse'']
               \<or> req_file ?req = Some (GoodJson (IsArray [''ok'', ''bad'', ''ok'', ''worse'']))"
    by simp
  have run: "validateChaptersArray example_validate ?req
      = Inr ([example_chapter, example_chapter],
             [\<lparr>index = 1, chapter_val = RawChapter ''bad'',
               errors = [ValidationIssue ''subject'' ''Subject is required'' None]\<rparr>,
              \<lparr>index = 3, chapter_val = RawChapter ''worse'',
               errors = [ValidationIssue ''subject'' ''Subject is required'' None]\<rparr>])"
    by (simp add: validateChaptersArray_def example_validate_def detail_entry_def)
  from validateChaptersArray_partition [OF input, of example_validate]
  obtain v f where
    r: "validateChaptersArray example_validate ?req = Inr (v, f)"
    and l: "length v + length f = length [''ok'', ''bad'', ''ok'', ''worse'']"
    and d: "distinct (map index f)"
    and b: "\<forall>e\<in>set f. index e < length [''ok'', ''bad'', ''ok'', ''worse'']"
    by blast
  have "\<exists>validChapters invalidChapters.
           validateChaptersArray example_validate ?req = Inr (validChapters, invalidChapters)
           \<and> length validChapters + length invalidChapters = 4
           \<and> distinct (map index invalidChapters)
           \<and> (\<forall>e\<in>set invalidChapters. index e < 4)"
    using r l d b by (intro exI [of _ v] exI [of _ f]) (simp add: eval_nat_numeral)
  with run show ?thesis by simp
qed

subsection \<open>Cache keys\<close>

lemma sort_distinct_set_eq:
  fixes xs ys :: "'a::linorder list"
  assumes "distinct xs" "distinct ys" "set xs = set ys"
  shows "sort xs = sort ys"
proof (rule sorted_distinct_set_unique)
  show "sorted (sort xs)" "sorted (sort ys)" by simp_all
  show "distinct (sort xs)" "distinct (sort ys)" using assms by simp_all
  show "set (sort xs) = set (sort ys)" using assms by simp
qed

lemma sortedQuery_order_independent:
  assumes "distinct (map fst q1)" "distinct (map fst q2)" "map_of q1 = map_of q2"
  shows "sortedQuery q1 = sortedQuery q2"
proof -
  have "set (map fst q1) = set (map fst q2)"
    using assms(3) by (metis dom_map_of_conv_image_fst set_map)
  with assms have "sort (Object_keys q1) = sort (Object_keys q2)"
    unfolding Object_keys_def by (intro sort_distinct_set_eq)
  with assms(3) show ?thesis
    by (simp add: sortedQuery_def js_get_def)
qed

text \<open>
  Claim C7. Two requests with the same method and the same path whose query objects hold
  the same key-value pairs, in whatever order, get the same cache key. (The query of a
  request is an object, so it has one value per key.)
\<close>

theorem generateCacheKey_order_independent:
  assumes "req_method r1 = req_method r2" and "req_path r1 = req_path r2"
    and "distinct (map fst (req_query r1))" and "distinct (map fst (req_query r2))"
    and "map_of (req_query r1) = map_of (req_query r2)"
  shows "generateCacheKey r1 = generateCacheKey r2"
proof -
  have "sortedQuery (req_query r1) = sortedQuery (req_query r2)"
    using assms(3-5) by (rule sortedQuery_order_independent)
  moreover have "set (map fst (req_query r1)) = set (map fst (req_query r2))"
    using assms(5) by (metis dom_map_of_conv_image_fst set_map)
  then have "(length (Object_keys (req_query r1)) > 0) = (length (Object_keys (req_query r2)) > 0)"
    unfolding Object_keys_def by (metis length_greater_0_conv set_empty)
  ultimately show ?thesis
    using assms(1,2) by (simp add: generateCacheKey_def Let_def)
qed

text \<open>An instance: the three parameters of the list endpoint in two orders.\<close>

theorem generateCacheKey_order_independent_witness:
  "generateCacheKey \<lparr>req_method = ''GET'', req_path = ''/'',
      req_query = [(''page'', ''1''), (''class'', ''Class 11''), (''limit'', ''5'')]\<rparr>
   = generateCacheKey \<lparr>req_method = ''GET'', req_path = ''/'',
      req_query = [(''limit'', ''5''), (''page'', ''1''), (''class'', ''Class 11'')]\<rparr>
   \<and> generateCacheKey \<lparr>req_method = ''GET'', req_path = ''/'',
      req_query = [(''limit'', ''5''), (''page'', ''1''), (''class'', ''Class 11'')]\<rparr>
     = ''chapters:GET:/?class=Class+11&limit=5&page=1''"
proof -
  let ?r1 = "\<lparr>req_method = ''GET'', req_path = ''/'',
      req_query = [(''page'', ''1''), (''class'', ''Class 11''), (''limit'', ''5'')]\<rparr>"
  let ?r2 = "\<lparr>req_method = ''GET'', req_path = ''/'',
      req_query = [(''limit'', ''5''), (''page'', ''1''), (''class'', ''Class 11'')]\<rparr>"
  have "map_of (req_query ?r1) = map_of (req_query ?r2)"
    by (rule ext) simp
  then have "generateCacheKey ?r1 = generateCacheKey ?r2"
    by (intro generateCacheKey_order_independent) simp_all
  moreover have "generateCacheKey ?r2 = ''chapters:GET:/?class=Class+11&limit=5&page=1''"
    by code_simp
  ultimately show ?thesis by simp
qed

subsection \<open>Invalidation of the read path's entries\<close>

lemma glob_match_star [simp]: "glob_match ''*'' s"
  by (induction s) simp_all

lemma glob_match_chapters_iff: "glob_match ''chapters:*'' k = prefix ''chapters:'' k"
proof
  assume "glob_match ''chapters:*'' k"
  then show "prefix ''chapters:'' k"
    by (auto simp: prefix_def elim!: glob_match.elims split: if_splits)
next
  assume "prefix ''chapters:'' k"
  then obtain rest where "k = ''chapters:'' @ rest" by (auto simp: prefix_def)
  then show "glob_match ''chapters:*'' k" by simp
qed

lemma generateCacheKey_prefix: "prefix ''chapters:'' (generateCacheKey req)"
  by (simp add: generateCacheKey_def Let_def)

lemma cache_set_keys: "set (map fst (cache_set up store key data ttl)) \<subseteq> insert key (set (map fst store))"
  by (auto simp: cache_set_def)

lemma cacheMiddleware_keys:
  "set (map fst (snd (cacheMiddleware ttl dev up req store h)))
     \<subseteq> insert (generateCacheKey req) (set (map fst store))"
  using cache_set_keys [of up store "generateCacheKey req"]
  by (auto simp: cacheMiddleware_def Let_def split: downstream.splits option.splits)

lemma clearChapterCache_keys:
  "set (map fst (snd (clearChapterCache True store)))
     = {k \<in> set (map fst store). \<not> prefix ''chapters:'' k}"
  by (auto simp: clearChapterCache_def clearCachePattern_def cache_delPattern_def Let_def
      client_keys_def client_del_def glob_match_chapters_iff filter_empty_conv)

text \<open>
  Claim C9. The key the cache middleware computes for a request begins with
  \<^verbatim>\<open>chapters:\<close> and is matched by the pattern \<^verbatim>\<open>chapters:*\<close>; the middleware writes
  no entry under another key; and after an invalidation that completed (the cache
  store answered) the cache holds no entry under the key of any request, nor any key
  with that prefix.
\<close>

theorem read_path_keys_invalidated:
  "prefix ''chapters:'' (generateCacheKey req)
   \<and> glob_match ''chapters:*'' (generateCacheKey req)
   \<and> set (map fst (snd (cacheMiddleware ttl dev up req store h)))
         \<subseteq> insert (generateCacheKey req) (set (map fst store))
   \<and> cache_get up' (snd (clearChapterCache True store')) (generateCacheKey req') = None
   \<and> (\<forall>k\<in>set (map fst (snd (clearChapterCache True store'))). \<not> prefix ''chapters:'' k)"
proof -
  have gone: "generateCacheKey req' \<notin> set (map fst (snd (clearChapterCache True store')))"
    by (simp only: clearChapterCache_keys) (simp add: generateCacheKey_prefix)
  have "map_of (snd (clearChapterCache True store')) (generateCacheKey req') = None"
    using gone by (simp add: map_of_eq_None_iff)
  then have "cache_get up' (snd (clearChapterCache True store')) (generateCacheKey req') = None"
    by (simp add: cache_get_def)
  moreover have "\<forall>k\<in>set (map fst (snd (clearChapterCache True store'))). \<not> prefix ''chapters:'' k"
    by (simp only: clearChapterCache_keys mem_Collect_eq) blast
  ultimately show ?thesis
    using generateCacheKey_prefix [of req] cacheMiddleware_keys [of ttl dev up req store h]
    by (simp only: glob_match_chapters_iff)
qed

text \<open>
  An instance: the statistics endpoint's response is cached under
  \<^verbatim>\<open>chapters:GET:/stats\<close>; the invalidation removes that entry and leaves a rate-limit
  counter in place.
\<close>

theorem read_path_keys_invalidated_witness:
  "generateCacheKey \<lparr>req_method = ''GET'', req_path = ''/stats'', req_query = []\<rparr> = ''chapters:GET:/stats''
   \<and> snd (cacheMiddleware 1800 False True \<lparr>req_method = ''GET'', req_path = ''/stats'', req_query = []\<rparr>
             [(''rl:10.0.0.7'', 60, \<lparr>body_status = ''1'', body_data = ()\<rparr>)]
             (Responds 200 \<lparr>body_status = ''success'', body_data = ()\<rparr>))
       = [(''rl:10.0.0.7'', 60, \<lparr>body_status = ''1'', body_data = ()\<rparr>),
          (''chapters:GET:/stats'', 1800, \<lparr>body_status = ''success'', body_data = ()\<rparr>)]
   \<and> snd (clearChapterCache True
             [(''rl:10.0.0.7'', 60, \<lparr>body_status = ''1'', body_data = ()\<rparr>),
              (''chapters:GET:/stats'', 1800, \<lparr>body_status = ''success'', body_data = ()\<rparr>)])
       = [(''rl:10.0.0.7'', 60, \<lparr>body_status = ''1'', body_data = ()\<rparr>)]
   \<and> cache_get True
         (snd (clearChapterCache True
             [(''rl:10.0.0.7'', 60, \<lparr>body_status = ''1'', body_data = ()\<rparr>),
              (''chapters:GET:/stats'', 1800, \<lparr>body_status = ''success'', body_data = ()\<rparr>)]))
         (generateCacheKey \<lparr>req_method = ''GET'', req_path = ''/stats'', req_query = []\<rparr>) = None
   \<and> \<not> prefix ''chapters:'' ''rl:10.0.0.7''"
proof -
  let ?req = "\<lparr>req_method = ''GET'', req_path = ''/stats'', req_query = []\<rparr>"
  let ?store = "[(''rl:10.0.0.7'', 60, \<lparr>body_status = ''1'', body_data = ()\<rparr>),
              (''chapters:GET:/stats'', 1800, \<lparr>body_status = ''success'', body_data = ()\<rparr>)]"
  have key: "generateCacheKey ?req = ''chapters:GET:/stats''"
    by (simp add: generateCacheKey_def Object_keys_def)
  have miss: "snd (cacheMiddleware 1800 False True ?req
             [(''rl:10.0.0.7'', 60, \<lparr>body_status = ''1'', body_data = ()\<rparr>)]
             (Responds 200 \<lparr>body_status = ''success'', body_data = ()\<rparr>)) = ?store"
    by (simp add: cacheMiddleware_def key cache_get_def cache_set_def)
  have cleared: "snd (clearChapterCache True ?store)
       = [(''rl:10.0.0.7'', 60, \<lparr>body_status = ''1'', body_data = ()\<rparr>)]"
    by (simp add: clearChapterCache_def clearCachePattern_def cache_delPattern_def Let_def
        client_keys_def client_del_def)
  from read_path_keys_invalidated [of ?req 1800 False True "[]" NextError True ?store ?req]
  have "cache_get True (snd (clearChapterCache True ?store)) (generateCacheKey ?req) = None"
    and "\<forall>k\<in>set (map fst (snd (clearChapterCache True ?store))). \<not> prefix ''chapters:'' k"
    by blast+
  with key miss cleared show ?thesis by simp
qed

subsection \<open>The bulk-write handler\<close>

lemma show_nat_0 [simp]: "show_nat 0 = ''0''"
  by code_simp

lemma show_nat_1 [simp]: "show_nat (Suc 0) = ''1''"
  by code_simp











text \<open>
  Claim C10. A request whose body is the empty array passes the validator, which hands
  on no accepted and no rejected item; the handler then makes no call to the store (and
  none to the cache) and answers 400 with status \<^verbatim>\<open>error\<close>, \<^verbatim>\<open>savedCount\<close> 0 and
  \<^verbatim>\<open>failedCount\<close> 0. The same holds for an uploaded file that holds the empty array.
\<close>

theorem postChapters_empty_array:
  "validateChaptersArray validate \<lparr>req_file = None, req_body = IsArray []\<rparr> = Inr ([], [])
   \<and> postChapters validate insertMany up cache \<lparr>req_file = None, req_body = IsArray []\<rparr>
       = Inr \<lparr>run_effects = [], run_cache = cache,
              run_result = Sent 400
                \<lparr>resp_status = ''error'', resp_message = ''0 chapters saved successfully'',
                 savedCount = 0, failedCount = 0, data_savedChapters = [],
                 data_failedChapters = None\<rparr>\<rparr>
   \<and> postChapters validate insertMany up cache \<lparr>req_file = Some (GoodJson (IsArray [])), req_body = body\<rparr>
       = Inr \<lparr>run_effects = [], run_cache = cache,
              run_result = Sent 400
                \<lparr>resp_status = ''error'', resp_message = ''0 chapters saved successfully'',
                 savedCount = 0, failedCount = 0, data_savedChapters = [],
                 data_failedChapters = None\<rparr>\<rparr>"
  by (simp add: postChapters_def validateChaptersArray_def createChapters_def respond_def
      build_response_def)

lemma pushWriteErrors_indices:
  "map index (pushWriteErrors validChapters i ws failed) = map index failed @ [i..<i + length ws]"
proof (induction ws arbitrary: i failed)
  case Nil
  show ?case by simp
next
  case (Cons w ws)
  have "[i..<i + length (w # ws)] = i # [Suc i..<Suc i + length ws]"
    by (simp add: upt_conv_Cons del: upt_Suc)
  then show ?case by (simp add: Cons.IH del: upt_Suc)
qed

lemma createChapters_clears_iff_returned:
  "(ClearChapterCache \<in> set (run_effects (createChapters insertMany up cache validChapters invalidChapters)))
     = (validChapters \<noteq> [] \<and> (\<exists>docs. insertMany validChapters = Returned docs))"
  by (auto simp: createChapters_def respond_def split: insert_outcome.splits write_errors_prop.splits)

lemma store_reports_duplicate_at_1:
  "snd (insertMany_unique [as_doc ''0'' geometry_chapter] [example_chapter, geometry_chapter])
     = Threw duplicate_at_1"
  by (simp add: insertMany_unique_def duplicate_at_1_def unique_key_def as_doc_def chapter_rec.defs
      geometry_chapter_def example_chapter_def Let_def)

text \<open>
  Claim C1 fails on the code. Two valid records are posted and the store rejects the
  second, at position 1 of the array it was sent, as a duplicate: the entry merged into
  the rejection list holds that second record, but its \<^verbatim>\<open>index\<close> is 0, the position
  of the fault in the list of write errors.
\<close>

theorem createChapters_fault_index_is_list_position:
  "run_result
     (createChapters (\<lambda>records. Threw duplicate_at_1) True ([] :: unit cache_store)
        [example_chapter, geometry_chapter] ([] :: string failed_chapter list))
   = Sent 201
       \<lparr>resp_status = ''success'',
        resp_message = ''1 chapters saved successfully, 1 chapters failed'',
        savedCount = 1, failedCount = 1,
        data_savedChapters =
          [\<lparr>saved_id = ''1'', saved_subject = ''Math'', saved_chapter = ''Algebra'',
            saved_class = ''Class 10'', saved_unit = ''Unit 1''\<rparr>],
        data_failedChapters =
          Some [\<lparr>index = 0, chapter_val = ValidChapter geometry_chapter,
                 errors = [StoreIssue ''document'' ''E11000 duplicate key error'' (Some 11000)]\<rparr>]\<rparr>
   \<and> [example_chapter, geometry_chapter] ! 1 = geometry_chapter
   \<and> [example_chapter, geometry_chapter] ! 0 \<noteq> geometry_chapter"
  by (simp add: createChapters_def duplicate_at_1_def respond_def build_response_def
      array_or_empty_def summary_def as_doc_def chapter_rec.defs example_chapter_def
      geometry_chapter_def valid_at_def js_or_def truthy_str_def)

text \<open>
  Claim C2 fails on the code. In the same run one record is persisted and the response
  is 201, but the handler makes no call to \<^verbatim>\<open>clearChapterCache\<close>: the cached
  statistics stay in the cache. When the bulk insert returns normally the cache is
  cleared.
\<close>

theorem createChapters_partial_success_keeps_cache:
  "run_effects
     (createChapters (\<lambda>records. Threw duplicate_at_1) True [(''chapters:GET:/stats'', 1800, ())]
        [example_chapter, geometry_chapter] ([] :: string failed_chapter list))
   = [InsertMany [example_chapter, geometry_chapter]]
   \<and> run_cache
     (createChapters (\<lambda>records. Threw duplicate_at_1) True [(''chapters:GET:/stats'', 1800, ())]
        [example_chapter, geometry_chapter] ([] :: string failed_chapter list))
   = [(''chapters:GET:/stats'', 1800, ())]
   \<and> run_effects
     (createChapters (\<lambda>records. Returned (DocsArray [as_doc ''1'' example_chapter])) True
        [(''chapters:GET:/stats'', 1800, ())] [example_chapter] ([] :: string failed_chapter list))
   = [InsertMany [example_chapter], ClearChapterCache]
   \<and> run_cache
     (createChapters (\<lambda>records. Returned (DocsArray [as_doc ''1'' example_chapter])) True
        [(''chapters:GET:/stats'', 1800, ())] [example_chapter] ([] :: string failed_chapter list))
   = []"
  by (simp add: createChapters_def duplicate_at_1_def respond_def clearChapterCache_def
      clearCachePattern_def cache_delPattern_def client_keys_def client_del_def Let_def)

subsection \<open>Statistics\<close>

lemma year_paths_eval: "year_paths = replicate 7 ''$yearWiseQuestionCount.1''"
  by (simp add: year_paths_def object_values_years_def eval_nat_numeral)

lemma resolve_path_1: "resolve_path doc ''$yearWiseQuestionCount.1'' = None"
  by (simp add: resolve_path_def year_field_def)

lemma completionRate_zero: "completionRate doc = 0"
  by (simp add: completionRate_def year_paths_eval resolve_path_1 mongo_sum_def Let_def
      sum_list_replicate)

lemma Math_round_0: "Math_round 0 = 0"
  by (simp add: Math_round_def floor_eq_iff)

lemma sum_completionRate_zero: "sum_list (map completionRate docs) = 0"
  by (induction docs) (simp_all add: completionRate_zero)

lemma getStatistics_average_zero: "averageCompletionRate (getStatistics docs) = 0"
  by (simp add: getStatistics_def aggregate_group_def sum_completionRate_zero Math_round_0)

text \<open>
  Claim C4 fails on the code. \<^verbatim>\<open>Object.values\<close> yields the values of the object
  literal, seven times the number 1, not its keys 2019 to 2025: all seven field paths
  are \<^verbatim>\<open>$yearWiseQuestionCount.1\<close>, a field no document has. The sum is 0 for every
  document, so every rate and the average are 0. For a single record with 5 questions
  solved out of 10, the formula of the claim gives 50.
\<close>

theorem getStatistics_average_ignores_counts:
  "year_paths = replicate 7 ''$yearWiseQuestionCount.1''
   \<and> completionRate half_solved_doc = 0
   \<and> averageCompletionRate (getStatistics [half_solved_doc]) = 0
   \<and> spec_completionRate half_solved_doc = 50
   \<and> spec_averageCompletionRate [half_solved_doc] = 50"
proof -
  have "spec_year_total half_solved_doc = 10"
    by (simp add: spec_year_total_def half_solved_doc_def as_doc_def chapter_rec.defs example_chapter_def)
  moreover have "questionSolved half_solved_doc = 5"
    by (simp add: half_solved_doc_def as_doc_def chapter_rec.defs example_chapter_def)
  ultimately have "spec_completionRate half_solved_doc = 50"
    by (simp add: spec_completionRate_def)
  then show ?thesis
    by (simp add: year_paths_eval completionRate_zero getStatistics_average_zero
        spec_averageCompletionRate_def)
qed

subsection \<open>Rate limits\<close>

lemma rateLimit_over:
  assumes "map_of store (keyGenerator config req) = Some (hits, resetTime)"
    and "now < resetTime" and "max_requests config \<le> hits" and "\<not> skip_request config req"
  shows "fst (rateLimit config now store req) = Rejected (fst (handler config req)) (snd (handler config req))"
  using assms by (simp add: rateLimit_def increment_def Let_def split: prod.splits)

text \<open>
  Claim C6, amended. A counted request of an identity that has used up its ceiling in the
  running window (30 for the key of the client address, 100 for the key
  \<^verbatim>\<open>admin_<address>\<close>) is answered with HTTP 429 and a body of status \<^verbatim>\<open>error\<close>
  whose \<^verbatim>\<open>retryAfter\<close> is the constant 60, the length of the window in seconds. The
  general limiter does not count, and so never rejects, a request to \<^verbatim>\<open>/health\<close>.
\<close>

theorem rate_limit_rejection:
  "(map_of store (client_address req) = Some (hits, resetTime) \<and> now < resetTime \<and> 30 \<le> hits
      \<and> client_path req \<noteq> ''/health''
    \<longrightarrow> fst (rateLimiter now store req)
        = Rejected 429
            \<lparr>limit_status = ''error'',
             limit_message = ''Too many requests from this IP, please try again after a minute.'',
             retryAfter = 60\<rparr>)
   \<and> (map_of store (''admin_'' @ client_address req) = Some (hits, resetTime) \<and> now < resetTime
      \<and> 100 \<le> hits
    \<longrightarrow> fst (adminRateLimiter now store req)
        = Rejected 429
            \<lparr>limit_status = ''error'',
             limit_message = ''Too many admin requests from this IP, please try again after a minute.'',
             retryAfter = 60\<rparr>)
   \<and> (client_path req = ''/health'' \<longrightarrow> rateLimiter now store req = (Passed, store))"
proof -
  have general: "fst (rateLimiter now store req)
        = Rejected 429
            \<lparr>limit_status = ''error'',
             limit_message = ''Too many requests from this IP, please try again after a minute.'',
             retryAfter = 60\<rparr>"
    if "map_of store (client_address req) = Some (hits, resetTime)" "now < resetTime" "30 \<le> hits"
      "client_path req \<noteq> ''/health''"
    using rateLimit_over [of store rateLimiter_config req hits resetTime now] that
    by (simp add: rateLimiter_def rateLimiter_config_def)
  have admin: "fst (adminRateLimiter now store req)
        = Rejected 429
            \<lparr>limit_status = ''error'',
             limit_message = ''Too many admin requests from this IP, please try again after a minute.'',
             retryAfter = 60\<rparr>"
    if "map_of store (''admin_'' @ client_address req) = Some (hits, resetTime)" "now < resetTime"
      "100 \<le> hits"
    using rateLimit_over [of store adminRateLimiter_config req hits resetTime now] that
    by (simp add: adminRateLimiter_def adminRateLimiter_config_def)
  have health: "rateLimiter now store req = (Passed, store)" if "client_path req = ''/health''"
    using that by (simp add: rateLimiter_def rateLimit_def rateLimiter_config_def)
  from general admin health show ?thesis by blast
qed

text \<open>
  An instance: the 31st request of a client and the 101st admin request of the same
  client are rejected, a request to \<^verbatim>\<open>/health\<close> passes.
\<close>

theorem rate_limit_rejection_witness:
  "map_of [(''10.0.0.7'', 30, 60000), (''admin_10.0.0.7'', 100, 60000)] ''10.0.0.7'' = Some (30, 60000)
   \<and> fst (rateLimiter 1000 [(''10.0.0.7'', 30, 60000), (''admin_10.0.0.7'', 100, 60000)]
           \<lparr>ip = Some ''10.0.0.7'', connection_remoteAddress = None, socket_remoteAddress = None,
            client_path = ''/api/v1/chapters''\<rparr>)
       = Rejected 429
           \<lparr>limit_status = ''error'',
            limit_message = ''Too many requests from this IP, please try again after a minute.'',
            retryAfter = 60\<rparr>
   \<and> map_of [(''10.0.0.7'', 30, 60000), (''admin_10.0.0.7'', 100, 60000)] ''admin_10.0.0.7''
       = Some (100, 60000)
   \<and> fst (adminRateLimiter 1000 [(''10.0.0.7'', 30, 60000), (''admin_10.0.0.7'', 100, 60000)]
           \<lparr>ip = Some ''10.0.0.7'', connection_remoteAddress = None, socket_remoteAddress = None,
            client_path = ''/api/v1/chapters''\<rparr>)
       = Rejected 429
           \<lparr>limit_status = ''error'',
            limit_message = ''Too many admin requests from this IP, please try again after a minute.'',
            retryAfter = 60\<rparr>
   \<and> rateLimiter 1000 [(''10.0.0.7'', 30, 60000), (''admin_10.0.0.7'', 100, 60000)]
         \<lparr>ip = Some ''10.0.0.7'', connection_remoteAddress = None, socket_remoteAddress = None,
          client_path = ''/health''\<rparr>
       = (Passed, [(''10.0.0.7'', 30, 60000), (''admin_10.0.0.7'', 100, 60000)])"
proof -
  let ?store = "[(''10.0.0.7'', 30, 60000), (''admin_10.0.0.7'', 100, 60000)] :: hit_store"
  let ?req = "\<lparr>ip = Some ''10.0.0.7'', connection_remoteAddress = None, socket_remoteAddress = None,
            client_path = ''/api/v1/chapters''\<rparr>"
  let ?health = "\<lparr>ip = Some ''10.0.0.7'', connection_remoteAddress = None, socket_remoteAddress = None,
            client_path = ''/health''\<rparr>"
  have addr: "client_address ?req = ''10.0.0.7''" "client_address ?health = ''10.0.0.7''"
    by (simp_all add: client_address_def js_or_def truthy_str_def)
  show ?thesis
    using rate_limit_rejection [of ?store ?req 30 60000 1000]
      rate_limit_rejection [of ?store ?req 100 60000 1000]
      rate_limit_rejection [of ?store ?health 0 0 1000]
    by (simp add: addr)
qed

text \<open>
  Claim C6 as stated fails: half a minute into the window the 31st request is rejected
  with \<^verbatim>\<open>retryAfter\<close> 60 while 30 seconds remain; and a request to \<^verbatim>\<open>/health\<close> of
  the same client passes.
\<close>

theorem rate_limit_retry_after_counterexample:
  "fst (rateLimiter 30000 [(''10.0.0.7'', 30, 60000)]
         \<lparr>ip = Some ''10.0.0.7'', connection_remoteAddress = None, socket_remoteAddress = None,
          client_path = ''/api/v1/chapters''\<rparr>)
     = Rejected 429
         \<lparr>limit_status = ''error'',
          limit_message = ''Too many requests from this IP, please try again after a minute.'',
          retryAfter = 60\<rparr>
   \<and> snd (rateLimiter 30000 [(''10.0.0.7'', 30, 60000)]
         \<lparr>ip = Some ''10.0.0.7'', connection_remoteAddress = None, socket_remoteAddress = None,
          client_path = ''/api/v1/chapters''\<rparr>)
     = [(''10.0.0.7'', 31, 60000)]
   \<and> remaining_seconds [(''10.0.0.7'', 31, 60000)] ''10.0.0.7'' 30000 = 30
   \<and> fst (rateLimiter 30000 [(''10.0.0.7'', 31, 60000)]
         \<lparr>ip = Some ''10.0.0.7'', connection_remoteAddress = None, socket_remoteAddress = None,
          client_path = ''/health''\<rparr>)
     = Passed"
  by (simp add: rateLimiter_def rateLimit_def rateLimiter_config_def increment_def
      client_address_def js_or_def truthy_str_def remaining_seconds_def Let_def)

end
